theory Spec2Isabelle
  imports Main "HOL-Library.Sublist" "HOL-Library.AList"
begin

section \<open>The model\<close>

text \<open>
  The pipeline has four parts: the log processor assembles records from the lines of each input
  file and sends them to a channel; the batch publisher takes them from the channel and
  produces them to the bus; the file worker and the stats worker consume them. Each part is
  modelled as a function of what it receives from its environment (file contents, messages,
  the errors of system and library calls). The logs of the model hold the error reports of the
  code; its informational log lines are left out.
\<close>

subsection \<open>Regular expressions as the Go \<open>regexp\<close> package matches them\<close>

text \<open>
  Both the log processor and the stats worker recognise a record header with a regular
  expression and \<open>regexp.FindStringSubmatch\<close>. The patterns use only character classes,
  literals, concatenation, greedy repetition and capture groups, so the model is a small
  syntax tree with a backtracking matcher that lists every way of matching at the start of the
  input in Go's preference order (greedy repetition tries one more iteration first). Strings
  are byte lists; every class of the two patterns is decided per byte, and \<open>.\<close> is every
  byte but the line feed.
\<close>

definition nl :: char where
  "nl = CHR 0x0A"

datatype cls = Digit | WordOrHyphen | AnyButNewline | Lit char

fun cls_match :: "cls \<Rightarrow> char \<Rightarrow> bool" where
  "cls_match Digit c = (48 \<le> (of_char c :: nat) \<and> (of_char c :: nat) \<le> 57)"
| "cls_match WordOrHyphen c =
     ((48 \<le> (of_char c :: nat) \<and> (of_char c :: nat) \<le> 57) \<or>
      (65 \<le> (of_char c :: nat) \<and> (of_char c :: nat) \<le> 90) \<or>
      (97 \<le> (of_char c :: nat) \<and> (of_char c :: nat) \<le> 122) \<or>
      c = CHR ''_'' \<or> c = CHR ''-'')"
| "cls_match AnyButNewline c = (c \<noteq> nl)"
| "cls_match (Lit d) c = (c = d)"

datatype regex = Eps | Atom cls | Cat regex regex | Star regex | Group nat regex

text \<open>
  A matcher state is the input still to be read and the text captured so far by each group
  (index 0 is reserved for the whole match).
\<close>

type_synonym mstate = "string \<times> string list"

function ms :: "regex \<Rightarrow> mstate \<Rightarrow> mstate list" where
  "ms Eps st = [st]"
| "ms (Atom a) st =
     (case fst st of [] \<Rightarrow> [] | c # cs \<Rightarrow> if cls_match a c then [(cs, snd st)] else [])"
| "ms (Cat r1 r2) st = concat (map (ms r2) (ms r1 st))"
| "ms (Star r) st =
     concat (map (\<lambda>st'. if length (fst st') < length (fst st) then ms (Star r) st' else [])
                 (ms r st)) @ [st]"
| "ms (Group i r) st =
     map (\<lambda>st'. (fst st', (snd st')[i := take (length (fst st) - length (fst st')) (fst st)]))
         (ms r st)"
  by pat_completeness auto
termination
  by (relation "measures [\<lambda>(r, st). size r, \<lambda>(r, st). length (fst st)]") auto

fun numSubexp :: "regex \<Rightarrow> nat" where
  "numSubexp Eps = 0"
| "numSubexp (Atom a) = 0"
| "numSubexp (Cat r1 r2) = max (numSubexp r1) (numSubexp r2)"
| "numSubexp (Star r) = numSubexp r"
| "numSubexp (Group i r) = max i (numSubexp r)"

text \<open>
  \<open>FindStringSubmatch\<close>: the leftmost match, and at that position the preferred one. The
  result is the whole match followed by the groups; the empty list stands for Go's \<open>nil\<close>
  (no match).
\<close>

fun findFrom :: "regex \<Rightarrow> string \<Rightarrow> string list" where
  "findFrom re [] =
     (case ms re ([], replicate (Suc (numSubexp re)) []) of
        [] \<Rightarrow> []
      | st' # _ \<Rightarrow> (snd st')[0 := []])"
| "findFrom re (c # cs) =
     (case ms re (c # cs, replicate (Suc (numSubexp re)) []) of
        [] \<Rightarrow> findFrom re cs
      | st' # _ \<Rightarrow> (snd st')[0 := take (length (c # cs) - length (fst st')) (c # cs)])"

definition FindStringSubmatch :: "regex \<Rightarrow> string \<Rightarrow> string list" where
  "FindStringSubmatch re s = findFrom re s"

text \<open>Pattern notation: \<open>r+\<close>, \<open>r{n}\<close> and a literal string.\<close>

definition Plus :: "regex \<Rightarrow> regex" where
  "Plus r = Cat r (Star r)"

fun Rep :: "nat \<Rightarrow> regex \<Rightarrow> regex" where
  "Rep 0 r = Eps"
| "Rep (Suc 0) r = r"
| "Rep (Suc (Suc n)) r = Cat r (Rep (Suc n) r)"

fun Str :: "string \<Rightarrow> regex" where
  "Str [] = Eps"
| "Str [c] = Atom (Lit c)"
| "Str (c # d # cs) = Cat (Atom (Lit c)) (Str (d # cs))"

fun Seq :: "regex list \<Rightarrow> regex" where
  "Seq [] = Eps"
| "Seq [r] = r"
| "Seq (r # q # rs) = Cat r (Seq (q # rs))"

text \<open>The timestamp part shared by both patterns: \<open>\d{4}-\d{2}-\d{2} \d{2}:\d{2}:\d{2},\d{3}\<close>.\<close>

definition timestampRe :: regex where
  "timestampRe =
     Seq [Rep 4 (Atom Digit), Str ''-'', Rep 2 (Atom Digit), Str ''-'', Rep 2 (Atom Digit),
          Str '' '', Rep 2 (Atom Digit), Str '':'', Rep 2 (Atom Digit), Str '':'',
          Rep 2 (Atom Digit), Str '','', Rep 3 (Atom Digit)]"

subsection \<open>Log processor: \<open>ProcessLogFile\<close> and \<open>ProcessLogs\<close>\<close>

text \<open>
  The pattern of \<open>ProcessLogFile\<close>:
  \<open>(\d+:\d+::[\w-]+ \d{4}-\d{2}-\d{2} \d{2}:\d{2}:\d{2},\d{3}) - (.*)\<close>.
\<close>

definition linePattern :: regex where
  "linePattern =
     Seq [Group 1 (Seq [Plus (Atom Digit), Str '':'', Plus (Atom Digit), Str ''::'',
                        Plus (Atom WordOrHyphen), Str '' '', timestampRe]),
          Str '' - '',
          Group 2 (Star (Atom AnyButNewline))]"

definition matchesHeader :: "string \<Rightarrow> bool" where
  "matchesHeader line = (length (FindStringSubmatch linePattern line) = 3)"

text \<open>
  What the operating system gives \<open>ProcessLogFile\<close> for a path: either \<open>os.Open\<close> fails,
  or the file opens and its reads deliver the bytes of the file, up to its end or up to an I/O
  error (the second component, \<open>None\<close> when the end of the file is reached).
\<close>

datatype logfile = OpenError string | Opened string "string option"


text \<open>
  \<open>bufio.NewScanner\<close> splits with \<open>ScanLines\<close> and never holds more than
  \<open>MaxScanTokenSize\<close> bytes: a line is the bytes before the next line feed (or before the end
  of the data), without one trailing carriage return. When the buffer is full and holds no line
  feed, that is when the bytes before the next line feed are \<open>MaxScanTokenSize\<close> or more,
  \<open>Scan\<close> returns false for good and \<open>Err\<close> is \<open>ErrTooLong\<close>; \<open>ProcessLogFile\<close> does not
  enlarge the buffer. \<open>scanLines\<close> gives the lines that \<open>Scan\<close> yields and whether it stopped
  on a line too long.
\<close>

definition MaxScanTokenSize :: int where
  "MaxScanTokenSize = 64 * 1024"

definition ErrTooLong :: string where
  "ErrTooLong = ''bufio.Scanner: token too long''"

definition dropCR :: "string \<Rightarrow> string" where
  "dropCR l = (if l \<noteq> [] \<and> last l = CHR 0x0D then butlast l else l)"

function scanLines :: "string \<Rightarrow> string list \<times> bool" where
  "scanLines data =
     (if data = [] then ([], False)
      else (let line = takeWhile (\<lambda>c. c \<noteq> nl) data
            in if MaxScanTokenSize \<le> int (length line) then ([], True)
               else (case scanLines (drop (Suc (length line)) data) of
                       (lines, tooLong) \<Rightarrow> (dropCR line # lines, tooLong))))"
  by pat_completeness auto
termination
  by (relation "measure length") auto

declare scanLines.simps [simp del]

datatype plog = FailedToOpenFile string string | ErrorReadingFile string string

record assembled =
  sent :: "string list"
  plogs :: "plog list"
  wgDone :: bool

text \<open>
  The scanning loop. \<open>logLine\<close> is the record being assembled and \<open>ch\<close> the records sent
  to the \<open>logLines\<close> channel so far, oldest first. A send on the channel blocks while the
  channel is full; the function gives the sends in the order the goroutine performs them.
\<close>

fun scanLoop :: "string list \<Rightarrow> string \<Rightarrow> string list \<Rightarrow> string \<times> string list" where
  "scanLoop [] logLine ch = (logLine, ch)"
| "scanLoop (line # rest) logLine ch =
     (if matchesHeader line
      then scanLoop rest line (if logLine \<noteq> [] then ch @ [logLine] else ch)
      else scanLoop rest (logLine @ [nl] @ line) ch)"

definition ProcessLogFile :: "(string \<Rightarrow> logfile) \<Rightarrow> string \<Rightarrow> assembled" where
  "ProcessLogFile fs filePath =
     (case fs filePath of
        OpenError e \<Rightarrow> \<lparr>sent = [], plogs = [FailedToOpenFile filePath e], wgDone = True\<rparr>
      | Opened content readErr \<Rightarrow>
          (case scanLines content of
             (lines, tooLong) \<Rightarrow>
               (case scanLoop lines [] [] of
                  (logLine, ch) \<Rightarrow>
                    \<lparr>sent = (if logLine \<noteq> [] then ch @ [logLine] else ch),
                     plogs = (case (if tooLong then Some ErrTooLong else readErr) of
                                None \<Rightarrow> []
                              | Some e \<Rightarrow> [ErrorReadingFile filePath e]),
                     wgDone = True\<rparr>)))"

text \<open>
  \<open>ProcessLogs\<close> walks the file list in batches of \<open>maxFilesPerBatch\<close>, starts one
  \<open>ProcessLogFile\<close> per file of the batch and waits for all of them. The model keeps, batch
  by batch, what each of these calls does.
\<close>

definition maxParallelLines :: nat where
  "maxParallelLines = 100"

definition maxFilesPerBatch :: nat where
  "maxFilesPerBatch = 10"

function batchLoop :: "(string \<Rightarrow> logfile) \<Rightarrow> string list \<Rightarrow> nat \<Rightarrow> assembled list list" where
  "batchLoop fs filePaths i =
     (if i < length filePaths
      then (let end = (if i + maxFilesPerBatch > length filePaths
                       then length filePaths else i + maxFilesPerBatch)
            in map (ProcessLogFile fs) (take (end - i) (drop i filePaths))
               # batchLoop fs filePaths (i + maxFilesPerBatch))
      else [])"
  by pat_completeness auto
termination
  by (relation "measure (\<lambda>(fs, filePaths, i). length filePaths - i)")
     (auto simp: maxFilesPerBatch_def)

declare batchLoop.simps [simp del]

definition ProcessLogs :: "(string \<Rightarrow> logfile) \<Rightarrow> string list \<Rightarrow> assembled list list" where
  "ProcessLogs fs filePaths = batchLoop fs filePaths 0"

subsection \<open>The shape of a well-formed input file, in the words of the specification\<close>









subsection \<open>The shared channel of \<open>ProcessLogs\<close>\<close>

text \<open>
  \<open>ProcessLogs\<close> makes one channel of capacity \<open>maxParallelLines\<close>, and per batch starts a
  goroutine for every file and one more that drains the channel. The goroutines run in any
  interleaving; the model is the state they share and one function for a step of any of them,
  run over an arbitrary schedule. A step that Go would block (a send on a full channel, a
  receive on an empty one, the wait for a batch that is still running) leaves the state as it
  is.

  \<open>assemblers\<close> holds, for each \<open>ProcessLogFile\<close> goroutine of the current batch, the records
  it has still to send; \<open>pendingBatches\<close> the same for the batches not yet started;
  \<open>received\<close> the records the draining goroutines have taken.
\<close>

record pstate =
  chan :: "string list"
  chanClosed :: bool
  assemblers :: "string list list"
  pendingBatches :: "string list list list"
  received :: "string list"

datatype action = Send nat | Receive | NextBatch

definition initP :: "(string \<Rightarrow> logfile) \<Rightarrow> string list \<Rightarrow> pstate" where
  "initP fs filePaths =
     \<lparr>chan = [], chanClosed = False, assemblers = [],
      pendingBatches = map (map sent) (ProcessLogs fs filePaths), received = []\<rparr>"

fun stepP :: "pstate \<Rightarrow> action \<Rightarrow> pstate" where
  "stepP s (Send i) =
     (if i < length (assemblers s) \<and> length (chan s) < maxParallelLines
      then (case assemblers s ! i of
              [] \<Rightarrow> s
            | logLine # rest \<Rightarrow>
                s\<lparr>chan := chan s @ [logLine], assemblers := (assemblers s)[i := rest]\<rparr>)
      else s)"
| "stepP s Receive =
     (case chan s of
        [] \<Rightarrow> s
      | logLine # rest \<Rightarrow> s\<lparr>chan := rest, received := received s @ [logLine]\<rparr>)"
| "stepP s NextBatch =
     (if list_all (\<lambda>a. a = []) (assemblers s)
      then (case pendingBatches s of
              [] \<Rightarrow> s\<lparr>chanClosed := True\<rparr>
            | batch # rest \<Rightarrow> s\<lparr>assemblers := batch, pendingBatches := rest\<rparr>)
      else s)"

definition runP :: "(string \<Rightarrow> logfile) \<Rightarrow> string list \<Rightarrow> action list \<Rightarrow> pstate" where
  "runP fs filePaths schedule = foldl stepP (initP fs filePaths) schedule"

subsection \<open>Batch publisher: \<open>PublishToKafka\<close>\<close>

text \<open>
  \<open>strings.Index\<close> (position of the first occurrence) and \<open>strings.Split\<close>, which cuts at
  every occurrence found from left to right. With an empty separator Go splits after every
  UTF-8 sequence; the model splits after every byte there (the publisher and the file worker
  only split at non-empty separators).
\<close>

fun Index :: "string \<Rightarrow> string \<Rightarrow> nat option" where
  "Index [] sep = (if sep = [] then Some 0 else None)"
| "Index (c # cs) sep =
     (if prefix sep (c # cs) then Some 0 else map_option Suc (Index cs sep))"

function Split :: "string \<Rightarrow> string \<Rightarrow> string list" where
  "Split s sep =
     (if sep = [] then map (\<lambda>c. [c]) s
      else (case Index s sep of
              None \<Rightarrow> [s]
            | Some m \<Rightarrow> take m s # Split (drop (m + length sep) s) sep))"
  by pat_completeness auto
termination
proof (relation "measure (\<lambda>(s, sep). length s)")
  show "wf (measure (\<lambda>(s, sep). length s))" by simp
next
  fix s sep :: string and m
  assume "sep \<noteq> []" and "Index s sep = Some m"
  then have "s \<noteq> []" by (cases s) auto
  with \<open>sep \<noteq> []\<close> show "((drop (m + length sep) s, sep), (s, sep)) \<in> measure (\<lambda>(s, sep). length s)"
    by simp
qed

declare Split.simps [simp del]

text \<open>
  A \<open>kafka.Message\<close> as the publisher builds it (the partition is always
  \<open>kafka.PartitionAny\<close>), and the two things the publisher writes to its log.
\<close>

record message =
  Topic :: string
  Key :: string
  Value :: string

datatype qlog = InvalidLogLine string | FailedToProduce string

fun isInvalidLogLine :: "qlog \<Rightarrow> bool" where
  "isInvalidLogLine (InvalidLogLine l) = True"
| "isInvalidLogLine (FailedToProduce e) = False"

record published =
  produceCalls :: "message list"
  qlogs :: "qlog list"

text \<open>
  The loop over the channel. \<open>logLines\<close> is the sequence of records this goroutine receives
  from the channel; \<open>producer\<close> gives the error \<open>producer.Produce\<close> returns for a message, if
  any. \<open>produceCalls\<close> lists the messages handed to \<open>Produce\<close>, in order.
\<close>

fun publishLoop ::
  "(message \<Rightarrow> string option) \<Rightarrow> string \<Rightarrow> string list \<Rightarrow> published \<Rightarrow> published" where
  "publishLoop producer topic [] st = st"
| "publishLoop producer topic (logLine # rest) st =
     (let parts = Split logLine '' - '' in
      if length parts < 2
      then publishLoop producer topic rest (st\<lparr>qlogs := qlogs st @ [InvalidLogLine logLine]\<rparr>)
      else (let messageKey = parts ! 0;
                messageValue = logLine;
                msg = \<lparr>Topic = topic, Key = messageKey, Value = messageValue\<rparr>
            in publishLoop producer topic rest
                 (st\<lparr>produceCalls := produceCalls st @ [msg],
                     qlogs := qlogs st @ (case producer msg of
                                            None \<Rightarrow> []
                                          | Some e \<Rightarrow> [FailedToProduce e])\<rparr>)))"

definition PublishToKafka ::
  "string list \<Rightarrow> (message \<Rightarrow> string option) \<Rightarrow> string \<Rightarrow> published" where
  "PublishToKafka logLines producer topic =
     publishLoop producer topic logLines \<lparr>produceCalls = [], qlogs = []\<rparr>"

subsection \<open>Sanitizing consumer: \<open>FileWorker.Start\<close>\<close>

text \<open>
  An open file is a descriptor number and the path it was opened on. The worker's state is
  the \<open>logFiles\<close> cache (a Go map, kept here as an association list with unique keys), the
  contents of the files on disk, every handle \<open>os.OpenFile\<close> has returned, every handle
  \<open>Close\<close> has been called on, and the log.
\<close>

record osfile =
  fd :: nat
  path :: string

datatype flog =
    ErrorConsuming string
  | InvalidKeyFormat string
  | FailedToCreateLogFile string string
  | FailedToWriteLogMessage string string

text \<open>
  The disk is keyed by the resolved path: whether the path starts at the root, and its
  components once empty and \<open>.\<close> components are dropped and \<open>..\<close> has taken back the
  component before it. Two spellings of a path are thus one file. Symbolic and hard links are
  not part of the model.
\<close>

definition cleanStep :: "bool \<Rightarrow> string list \<Rightarrow> string \<Rightarrow> string list" where
  "cleanStep rooted acc c =
     (if c = [] \<or> c = ''.'' then acc
      else if c = ''..''
           then (if acc \<noteq> [] \<and> last acc \<noteq> ''..'' then butlast acc
                 else if rooted then acc else acc @ [c])
           else acc @ [c])"

definition resolvePath :: "string \<Rightarrow> bool \<times> string list" where
  "resolvePath p =
     (let rooted = (p \<noteq> [] \<and> hd p = CHR ''/'')
      in (rooted, foldl (cleanStep rooted) [] (Split p ''/'')))"

record fworker =
  logFiles :: "(string \<times> osfile) list"
  disk :: "bool \<times> string list \<Rightarrow> string option"
  opened :: "osfile list"
  closed :: "osfile list"
  flogs :: "flog list"

text \<open>
  What the worker meets in one turn of its loop: the context is cancelled, or
  \<open>ReadMessage\<close> returns an error, or it returns a message. With a message come the answers
  of the operating system, should the worker ask: the error of \<open>os.OpenFile\<close> and the error
  of \<open>WriteString\<close> (\<open>None\<close> for success; a failed write is taken to write nothing).
\<close>

datatype fevent =
    CtxDone
  | ReadError string
  | Delivered message "string option" "string option"

text \<open>\<open>os.OpenFile(fileName, O_APPEND|O_CREATE|O_WRONLY, 0644)\<close> and \<open>WriteString\<close>.\<close>

definition OpenFile :: "fworker \<Rightarrow> string \<Rightarrow> osfile \<times> fworker" where
  "OpenFile st fileName =
     (let logFile = \<lparr>fd = length (opened st), path = fileName\<rparr>
      in (logFile,
          st\<lparr>disk := (case disk st (resolvePath fileName) of
                         None \<Rightarrow> (disk st)(resolvePath fileName \<mapsto> [])
                       | Some old \<Rightarrow> disk st),
             opened := opened st @ [logFile]\<rparr>))"

definition WriteString :: "fworker \<Rightarrow> osfile \<Rightarrow> string \<Rightarrow> fworker" where
  "WriteString st logFile text =
     st\<lparr>disk := (disk st)(resolvePath (path logFile) \<mapsto>
                   (case disk st (resolvePath (path logFile)) of
                      None \<Rightarrow> text
                    | Some old \<Rightarrow> old @ text))\<rparr>"

definition writeLogMessage ::
  "fworker \<Rightarrow> string \<Rightarrow> osfile \<Rightarrow> string \<Rightarrow> string option \<Rightarrow> fworker" where
  "writeLogMessage st processID logFile logMessage writeErr =
     (case writeErr of
        None \<Rightarrow> WriteString st logFile (logMessage @ [nl])
      | Some e \<Rightarrow> st\<lparr>flogs := flogs st @ [FailedToWriteLogMessage processID e]\<rparr>)"

definition handleMessage ::
  "string \<Rightarrow> fworker \<Rightarrow> message \<Rightarrow> string option \<Rightarrow> string option \<Rightarrow> fworker" where
  "handleMessage sanitizedDir st msg openErr writeErr =
     (let key = Key msg;
          parts = Split key ''-''
      in if length parts < 2
         then st\<lparr>flogs := flogs st @ [InvalidKeyFormat key]\<rparr>
         else (let processID = parts ! 0
               in case map_of (logFiles st) processID of
                    Some logFile \<Rightarrow> writeLogMessage st processID logFile (Value msg) writeErr
                  | None \<Rightarrow>
                      (let fileName = sanitizedDir @ ''/'' @ processID @ ''.log''
                       in case openErr of
                            Some e \<Rightarrow> st\<lparr>flogs := flogs st @ [FailedToCreateLogFile processID e]\<rparr>
                          | None \<Rightarrow>
                              (case OpenFile st fileName of
                                 (logFile, st1) \<Rightarrow>
                                   writeLogMessage
                                     (st1\<lparr>logFiles := AList.update processID logFile (logFiles st1)\<rparr>)
                                     processID logFile (Value msg) writeErr))))"

text \<open>
  \<open>closeLogFiles\<close> closes every handle of the cache. Go leaves the order of a map iteration
  open; the model closes in the order of the list.
\<close>

definition closeLogFiles :: "fworker \<Rightarrow> fworker" where
  "closeLogFiles st = st\<lparr>closed := closed st @ map snd (logFiles st)\<rparr>"

text \<open>
  The loop of \<open>Start\<close>. It ends when the context is cancelled; when the events run out the
  worker is blocked in \<open>ReadMessage\<close>, still running.
\<close>

datatype frun = Fatal string | Returned fworker | Waiting fworker

fun fileLoop :: "string \<Rightarrow> fevent list \<Rightarrow> fworker \<Rightarrow> frun" where
  "fileLoop sanitizedDir [] st = Waiting st"
| "fileLoop sanitizedDir (CtxDone # rest) st = Returned (closeLogFiles st)"
| "fileLoop sanitizedDir (ReadError e # rest) st =
     fileLoop sanitizedDir rest (st\<lparr>flogs := flogs st @ [ErrorConsuming e]\<rparr>)"
| "fileLoop sanitizedDir (Delivered msg openErr writeErr # rest) st =
     fileLoop sanitizedDir rest (handleMessage sanitizedDir st msg openErr writeErr)"

text \<open>
  \<open>Start\<close>: creating the directory and subscribing are fatal when they fail; then the loop
  runs from an empty cache.
\<close>

definition Start ::
  "string \<Rightarrow> string option \<Rightarrow> string option \<Rightarrow> (bool \<times> string list \<Rightarrow> string option) \<Rightarrow>
   fevent list \<Rightarrow> frun" where
  "Start sanitizedDir mkdirErr subscribeErr disk0 events =
     (case mkdirErr of
        Some e \<Rightarrow> Fatal e
      | None \<Rightarrow>
          (case subscribeErr of
             Some e \<Rightarrow> Fatal e
           | None \<Rightarrow>
               fileLoop sanitizedDir events
                 \<lparr>logFiles = [], disk = disk0, opened = [], closed = [], flogs = []\<rparr>))"

fun stateOf :: "frun \<Rightarrow> fworker" where
  "stateOf (Fatal e) = \<lparr>logFiles = [], disk = (\<lambda>p. None), opened = [], closed = [], flogs = []\<rparr>"
| "stateOf (Returned st) = st"
| "stateOf (Waiting st) = st"


subsection \<open>Sanitizing consumer: the cache invariant\<close>

definition logFileName :: "string \<Rightarrow> string \<Rightarrow> string" where
  "logFileName sanitizedDir processID = sanitizedDir @ ''/'' @ processID @ ''.log''"


subsection \<open>Stats consumer: \<open>time.Parse\<close> with the layout \<open>2006-01-02 15:04:05.999\<close>\<close>

text \<open>
  The worker parses the timestamp with Go's \<open>time.Parse\<close> and one fixed layout. The model
  follows the library's \<open>parse\<close> through the chunks of this layout: four-digit year, literal,
  two-digit month, literal, two-digit day, space, hour of one or two digits, literal, two-digit
  minute, literal, two-digit second, optional fraction. From Go 1.17 (the toolchain of the
  repository's images) a comma in the value is accepted where the layout has the period of a
  fraction. The day is checked against the month once everything is read.
\<close>

datatype perror = ErrBad | OutOfRange string | ExtraText string

datatype location = UTCLoc | LocalLoc

record gotime =
  sec :: int
  nsec :: int
  loc :: location

definition bindE :: "'e + 'a \<Rightarrow> ('a \<Rightarrow> 'e + 'b) \<Rightarrow> 'e + 'b" where
  "bindE x f = (case x of Inl e \<Rightarrow> Inl e | Inr a \<Rightarrow> f a)"

definition isDigit :: "string \<Rightarrow> nat \<Rightarrow> bool" where
  "isDigit s i = (i < length s \<and> cls_match Digit (s ! i))"

definition digitVal :: "char \<Rightarrow> int" where
  "digitVal c = int (of_char c) - 48"

definition getnum :: "string \<Rightarrow> bool \<Rightarrow> perror + int \<times> string" where
  "getnum s fixed =
     (if \<not> isDigit s 0 then Inl ErrBad
      else if \<not> isDigit s 1
           then (if fixed then Inl ErrBad else Inr (digitVal (s ! 0), drop 1 s))
           else Inr (digitVal (s ! 0) * 10 + digitVal (s ! 1), drop 2 s))"

text \<open>
  \<open>atoi\<close>: an optional sign and then digits only. The library also fails on a number beyond
  63 bits; the parser calls it on at most nine digits.
\<close>

definition leadingInt :: "string \<Rightarrow> int" where
  "leadingInt s = foldl (\<lambda>x c. x * 10 + digitVal c) 0 s"

definition atoi :: "string \<Rightarrow> perror + int" where
  "atoi s0 =
     (let neg = (s0 \<noteq> [] \<and> hd s0 = CHR ''-'');
          s = (if s0 \<noteq> [] \<and> (hd s0 = CHR ''-'' \<or> hd s0 = CHR ''+'') then tl s0 else s0)
      in if list_all (cls_match Digit) s
         then Inr (if neg then - leadingInt s else leadingInt s)
         else Inl ErrBad)"

definition cutspace :: "string \<Rightarrow> string" where
  "cutspace s = dropWhile (\<lambda>c. c = CHR '' '') s"

function skip :: "string \<Rightarrow> string \<Rightarrow> perror + string" where
  "skip val [] = Inr val"
| "skip val (p # ps) =
     (if p = CHR '' ''
      then (if val \<noteq> [] \<and> hd val \<noteq> CHR '' '' then Inl ErrBad
            else skip (cutspace val) (cutspace (p # ps)))
      else (case val of
              [] \<Rightarrow> Inl ErrBad
            | v # vs \<Rightarrow> if v \<noteq> p then Inl ErrBad else skip vs ps))"
  by pat_completeness auto
termination
proof (relation "measure (\<lambda>(val, prefix). length prefix)")
  show "wf (measure (\<lambda>(val, prefix). length prefix))" by simp
next
  fix val p ps
  assume "p = CHR '' ''"
  then have "length (cutspace (p # ps)) \<le> length ps"
    by (simp add: cutspace_def length_dropWhile_le)
  then show "((cutspace val, cutspace (p # ps)), (val, p # ps))
             \<in> measure (\<lambda>(val, prefix). length prefix)"
    by simp
next
  fix val p ps v vs
  show "((vs, ps), (val, p # ps)) \<in> measure (\<lambda>(val, prefix). length prefix)"
    by simp
qed

definition longYear :: "string \<Rightarrow> perror + int \<times> string" where
  "longYear val =
     (if length val < 4 \<or> \<not> isDigit val 0 then Inl ErrBad
      else bindE (atoi (take 4 val)) (\<lambda>year. Inr (year, drop 4 val)))"

definition commaOrPeriod :: "char \<Rightarrow> bool" where
  "commaOrPeriod c = (c = CHR ''.'' \<or> c = CHR '','')"

definition parseNanoseconds :: "string \<Rightarrow> nat \<Rightarrow> perror + int" where
  "parseNanoseconds val0 nbytes0 =
     (if \<not> commaOrPeriod (val0 ! 0) then Inl ErrBad
      else (let val = (if nbytes0 > 10 then take 10 val0 else val0);
                nbytes = (if nbytes0 > 10 then 10 else nbytes0)
            in bindE (atoi (take (nbytes - 1) (drop 1 val)))
                 (\<lambda>ns. if ns < 0 \<or> 1000000000 \<le> ns
                       then Inl (OutOfRange ''fractional second'')
                       else Inr (ns * 10 ^ (10 - nbytes)))))"

definition fracSecond9 :: "string \<Rightarrow> perror + int \<times> string" where
  "fracSecond9 val =
     (if length val < 2 \<or> \<not> commaOrPeriod (val ! 0) \<or> \<not> cls_match Digit (val ! 1)
      then Inr (0, val)
      else (let i = length (takeWhile (cls_match Digit) (take 9 (drop 1 val)))
            in bindE (parseNanoseconds val (1 + i)) (\<lambda>ns. Inr (ns, drop (1 + i) val))))"

definition isLeap :: "int \<Rightarrow> bool" where
  "isLeap year = (year mod 4 = 0 \<and> (year mod 100 \<noteq> 0 \<or> year mod 400 = 0))"

definition daysIn :: "int \<Rightarrow> int \<Rightarrow> int" where
  "daysIn month year =
     (if month = 2 then (if isLeap year then 29 else 28)
      else if month = 4 \<or> month = 6 \<or> month = 9 \<or> month = 11 then 30 else 31)"

definition daysBefore :: "int \<Rightarrow> int" where
  "daysBefore month = [0, 31, 59, 90, 120, 151, 181, 212, 243, 273, 304, 334] ! nat (month - 1)"

definition daysSinceEpoch :: "int \<Rightarrow> int" where
  "daysSinceEpoch year =
     365 * (year - 1970)
     + ((year - 1) div 4 - (year - 1) div 100 + (year - 1) div 400)
     - (1969 div 4 - 1969 div 100 + 1969 div 400)"

text \<open>
  \<open>time.Date\<close> in UTC, for a month from 1 to 12 as \<open>parse\<close> passes it: the seconds since
  1970-01-01 00:00:00 UTC and the nanoseconds within the second.
\<close>

definition Date :: "int \<Rightarrow> int \<Rightarrow> int \<Rightarrow> int \<Rightarrow> int \<Rightarrow> int \<Rightarrow> int \<Rightarrow> gotime" where
  "Date year month day hour minute second ns =
     (let d = daysSinceEpoch year + daysBefore month
              + (if isLeap year \<and> month \<ge> 3 then 1 else 0) + (day - 1)
      in \<lparr>sec = d * 86400 + hour * 3600 + minute * 60 + second, nsec = ns, loc = UTCLoc\<rparr>)"

definition time_Parse :: "string \<Rightarrow> perror + gotime" where
  "time_Parse val =
     bindE (longYear val) (\<lambda>(year, v).
     bindE (skip v ''-'') (\<lambda>v.
     bindE (getnum v True) (\<lambda>(month, v).
     if month \<le> 0 \<or> 12 < month then Inl (OutOfRange ''month'') else
     bindE (skip v ''-'') (\<lambda>v.
     bindE (getnum v True) (\<lambda>(day, v).
     bindE (skip v '' '') (\<lambda>v.
     bindE (getnum v False) (\<lambda>(hour, v).
     if hour < 0 \<or> 24 \<le> hour then Inl (OutOfRange ''hour'') else
     bindE (skip v '':'') (\<lambda>v.
     bindE (getnum v True) (\<lambda>(minute, v).
     if minute < 0 \<or> 60 \<le> minute then Inl (OutOfRange ''minute'') else
     bindE (skip v '':'') (\<lambda>v.
     bindE (getnum v True) (\<lambda>(second, v).
     if second < 0 \<or> 60 \<le> second then Inl (OutOfRange ''second'') else
     bindE (fracSecond9 v) (\<lambda>(ns, v).
     if v \<noteq> [] then Inl (ExtraText v)
     else if day < 1 \<or> day > daysIn month year then Inl (OutOfRange ''day'')
     else Inr (Date year month day hour minute second ns)))))))))))))"

definition Unix :: "gotime \<Rightarrow> int" where
  "Unix t = sec t"

definition UTC :: "gotime \<Rightarrow> gotime" where
  "UTC t = t\<lparr>loc := UTCLoc\<rparr>"

definition UnixNano :: "gotime \<Rightarrow> int" where
  "UnixNano t = sec t * 1000000000 + nsec t"

definition UnixMilli :: "gotime \<Rightarrow> int" where
  "UnixMilli t = sec t * 1000 + nsec t div 1000000"

subsection \<open>Stats consumer: \<open>strings.TrimSpace\<close>\<close>

text \<open>
  White space is what \<open>unicode.IsSpace\<close> accepts: the six ASCII space characters, U+0085
  and U+00A0 (two bytes each in UTF-8), and U+1680, U+2000 to U+200A, U+2028, U+2029, U+202F,
  U+205F and U+3000 (three bytes each). \<open>spaceLen\<close> is the number of bytes of the white-space
  code point a text begins with, or 0.
\<close>

definition asciiSpace :: "char \<Rightarrow> bool" where
  "asciiSpace c = (c = CHR '' '' \<or> (9 \<le> (of_char c :: nat) \<and> (of_char c :: nat) \<le> 13))"

fun spaceLen :: "string \<Rightarrow> nat" where
  "spaceLen [] = 0"
| "spaceLen (c # rest) =
     (if asciiSpace c then 1
      else if c = CHR 0xC2 \<and> (take 1 rest = [CHR 0x85] \<or> take 1 rest = [CHR 0xA0]) then 2
      else if c = CHR 0xE1 \<and> take 2 rest = [CHR 0x9A, CHR 0x80] then 3
      else if c = CHR 0xE2 \<and> take 1 rest = [CHR 0x80] \<and>
              (case drop 1 rest of
                 [] \<Rightarrow> False
               | e # _ \<Rightarrow> (128 \<le> (of_char e :: nat) \<and> (of_char e :: nat) \<le> 138)
                          \<or> e = CHR 0xA8 \<or> e = CHR 0xA9 \<or> e = CHR 0xAF) then 3
      else if c = CHR 0xE2 \<and> take 2 rest = [CHR 0x81, CHR 0x9F] then 3
      else if c = CHR 0xE3 \<and> take 2 rest = [CHR 0x80, CHR 0x80] then 3
      else 0)"

definition spaceLenEnd :: "string \<Rightarrow> nat" where
  "spaceLenEnd s =
     (if s \<noteq> [] \<and> asciiSpace (last s) then 1
      else if 2 \<le> length s \<and> spaceLen (drop (length s - 2) s) = 2 then 2
      else if 3 \<le> length s \<and> spaceLen (drop (length s - 3) s) = 3 then 3
      else 0)"

function trimLeft :: "string \<Rightarrow> string" where
  "trimLeft s = (if spaceLen s = 0 then s else trimLeft (drop (spaceLen s) s))"
  by pat_completeness auto
termination
proof (relation "measure length")
  show "wf (measure length)" by simp
next
  fix s :: string
  assume "spaceLen s \<noteq> 0"
  moreover from this have "s \<noteq> []" by (cases s) auto
  ultimately show "(drop (spaceLen s) s, s) \<in> measure length" by simp
qed

function trimRight :: "string \<Rightarrow> string" where
  "trimRight s = (if spaceLenEnd s = 0 then s else trimRight (take (length s - spaceLenEnd s) s))"
  by pat_completeness auto
termination
proof (relation "measure length")
  show "wf (measure length)" by simp
next
  fix s :: string
  assume "spaceLenEnd s \<noteq> 0"
  moreover from this have "s \<noteq> []" by (auto simp: spaceLenEnd_def)
  ultimately show "(take (length s - spaceLenEnd s) s, s) \<in> measure length" by simp
qed

declare trimLeft.simps [simp del] trimRight.simps [simp del]

definition TrimSpace :: "string \<Rightarrow> string" where
  "TrimSpace s = trimRight (trimLeft s)"

subsection \<open>Stats consumer: \<open>StatsWorker\<close>\<close>

text \<open>
  The stats worker's pattern, which names the fields of a header:
  \<open>(\d+):(\d+)::([\w-]+) (\d{4}-\d{2}-\d{2} \d{2}:\d{2}:\d{2},\d{3}) - (.*(?:\n.*)*)\<close>.
\<close>

definition statsPattern :: regex where
  "statsPattern =
     Seq [Group 1 (Plus (Atom Digit)), Str '':'', Group 2 (Plus (Atom Digit)), Str ''::'',
          Group 3 (Plus (Atom WordOrHyphen)), Str '' '', Group 4 timestampRe, Str '' - '',
          Group 5 (Cat (Star (Atom AnyButNewline))
                       (Star (Cat (Atom (Lit nl)) (Star (Atom AnyButNewline)))))]"

record LogLine =
  ProcessID :: string
  ThreadID :: string
  Timestamp :: gotime
  TimestampSeconds :: int
  LogMessage :: string

datatype slog =
    ErrorConsumingMessage string
  | FailedToParseTimestamp perror
  | FailedToInsertLogLine string

record sworker =
  rows :: "LogLine list"
  slogs :: "slog list"

text \<open>
  Indexing a Go slice outside its length is a run-time panic, which ends the process.
\<close>

datatype panic = IndexOutOfRange nat nat

definition index :: "'a list \<Rightarrow> nat \<Rightarrow> panic + 'a" where
  "index xs i = (if i < length xs then Inr (xs ! i) else Inl (IndexOutOfRange i (length xs)))"

text \<open>
  \<open>processLogLine\<close>. \<open>insertErr\<close> is the error of the insert into the store, if any. The
  function returns a nil error on every path that returns; the result is the new state, or the
  panic.
\<close>

definition processLogLine :: "sworker \<Rightarrow> string \<Rightarrow> string option \<Rightarrow> panic + sworker" where
  "processLogLine st logLine insertErr =
     (let matches = FindStringSubmatch statsPattern logLine
      in bindE (index matches 1) (\<lambda>processID.
         bindE (index matches 2) (\<lambda>threadID.
         bindE (index matches 3) (\<lambda>threadName.
         bindE (index matches 4) (\<lambda>loggedTime.
         bindE (index matches 5) (\<lambda>rest.
         (let logMessage = TrimSpace rest
          in case time_Parse loggedTime of
               Inl e \<Rightarrow> Inr (st\<lparr>slogs := slogs st @ [FailedToParseTimestamp e]\<rparr>)
             | Inr timestamp \<Rightarrow>
                 (let logLineObj = \<lparr>ProcessID = processID, ThreadID = threadID,
                                    Timestamp = UTC timestamp,
                                    TimestampSeconds = Unix timestamp,
                                    LogMessage = logMessage\<rparr>
                  in case insertErr of
                       Some e \<Rightarrow> Inr (st\<lparr>slogs := slogs st @ [FailedToInsertLogLine e]\<rparr>)
                     | None \<Rightarrow> Inr (st\<lparr>rows := rows st @ [logLineObj]\<rparr>)))))))))"

datatype sevent =
    StatsCtxDone
  | StatsReadError string
  | StatsDelivered message "string option"

datatype srun = StatsFatal string | Panicked panic | StatsReturned sworker | StatsWaiting sworker

fun statsLoop :: "sevent list \<Rightarrow> sworker \<Rightarrow> srun" where
  "statsLoop [] st = StatsWaiting st"
| "statsLoop (StatsCtxDone # rest) st = StatsReturned st"
| "statsLoop (StatsReadError e # rest) st =
     statsLoop rest (st\<lparr>slogs := slogs st @ [ErrorConsumingMessage e]\<rparr>)"
| "statsLoop (StatsDelivered msg insertErr # rest) st =
     (case processLogLine st (Value msg) insertErr of
        Inl p \<Rightarrow> Panicked p
      | Inr st' \<Rightarrow> statsLoop rest st')"

definition StatsStart :: "string option \<Rightarrow> sevent list \<Rightarrow> srun" where
  "StatsStart subscribeErr events =
     (case subscribeErr of
        Some e \<Rightarrow> StatsFatal e
      | None \<Rightarrow> statsLoop events \<lparr>rows = [], slogs = []\<rparr>)"

subsection \<open>Stats consumer: the timestamp text of a matched record\<close>

text \<open>
  Whatever record matches the stats pattern, the text of its fourth group is a timestamp of
  the form \<open>dddd-dd-dd dd:dd:dd,ddd\<close>; \<open>fits\<close> compares a text with such a template, where
  \<open>9\<close> stands for any digit. On a text of this form \<open>time.Parse\<close> reads the three digits
  behind the comma as milliseconds.
\<close>

fun fits :: "string \<Rightarrow> string \<Rightarrow> bool" where
  "fits [] [] = True"
| "fits (t # ts) (c # cs) = ((if t = CHR ''9'' then cls_match Digit c else c = t) \<and> fits ts cs)"
| "fits [] (c # cs) = False"
| "fits (t # ts) [] = False"

definition timestampShape :: "string \<Rightarrow> bool" where
  "timestampShape ts = fits ''9999-99-99 99:99:99,999'' ts"

fun noGroups :: "regex \<Rightarrow> bool" where
  "noGroups Eps = True"
| "noGroups (Atom a) = True"
| "noGroups (Cat r1 r2) = (noGroups r1 \<and> noGroups r2)"
| "noGroups (Star r) = noGroups r"
| "noGroups (Group i r) = False"

section \<open>Lemmas\<close>

subsection \<open>Log processor: \<open>ProcessLogFile\<close> and \<open>ProcessLogs\<close>\<close>



















lemma batchLoop_concat:
  "concat (batchLoop fs filePaths i) = map (ProcessLogFile fs) (drop i filePaths)"
proof (induction fs filePaths i rule: batchLoop.induct)
  case (1 fs filePaths i)
  show ?case
  proof (cases "i < length filePaths")
    case False
    then show ?thesis by (subst batchLoop.simps) simp
  next
    case True
    define e where "e = (if i + maxFilesPerBatch > length filePaths
                         then length filePaths else i + maxFilesPerBatch)"
    have ih: "concat (batchLoop fs filePaths (i + maxFilesPerBatch)) =
              map (ProcessLogFile fs) (drop (i + maxFilesPerBatch) filePaths)"
      using "1.IH" [OF True refl] by simp
    have split: "take (e - i) (drop i filePaths) @ drop (i + maxFilesPerBatch) filePaths =
                 drop i filePaths"
    proof (cases "i + maxFilesPerBatch > length filePaths")
      case True
      then show ?thesis by (simp add: e_def)
    next
      case False
      have "take maxFilesPerBatch (drop i filePaths) @ drop maxFilesPerBatch (drop i filePaths) =
            drop i filePaths"
        by (rule append_take_drop_id)
      with False show ?thesis by (simp add: e_def add.commute)
    qed
    have "concat (batchLoop fs filePaths i) =
          map (ProcessLogFile fs) (take (e - i) (drop i filePaths)) @
          concat (batchLoop fs filePaths (i + maxFilesPerBatch))"
      using True by (subst batchLoop.simps) (simp add: e_def Let_def)
    also have "\<dots> = map (ProcessLogFile fs)
                       (take (e - i) (drop i filePaths) @ drop (i + maxFilesPerBatch) filePaths)"
      using ih by simp
    finally show ?thesis using split by simp
  qed
qed

subsection \<open>The shared channel of \<open>ProcessLogs\<close>\<close>

lemma stepP_bound:
  "length (chan s) \<le> maxParallelLines \<Longrightarrow> length (chan (stepP s a)) \<le> maxParallelLines"
  by (cases a) (auto split: list.splits)

lemma foldl_stepP_bound:
  "length (chan s) \<le> maxParallelLines \<Longrightarrow>
   length (chan (foldl stepP s schedule)) \<le> maxParallelLines"
  by (induction schedule arbitrary: s) (simp_all add: stepP_bound del: stepP.simps)

subsection \<open>Batch publisher: \<open>PublishToKafka\<close>\<close>

lemma Index_None_iff: "Index s sep = None \<longleftrightarrow> \<not> sublist sep s"
  by (induction s) (auto simp: sublist_Cons_right)

lemma Split_length_ge2: "sep \<noteq> [] \<Longrightarrow> 2 \<le> length (Split s sep) \<longleftrightarrow> sublist sep s"
proof -
  assume sep: "sep \<noteq> []"
  show ?thesis
  proof (cases "Index s sep")
    case None
    then have "Split s sep = [s]" using sep by (subst Split.simps) simp
    with None show ?thesis by (simp add: Index_None_iff [symmetric])
  next
    case (Some m)
    have "Split (drop (m + length sep) s) sep \<noteq> []"
      using sep by (subst Split.simps) (simp split: option.splits)
    then have "2 \<le> length (Split s sep)"
      using sep Some by (subst Split.simps) (cases "Split (drop (m + length sep) s) sep"; simp)
    moreover have "sublist sep s"
      using Some Index_None_iff [of s sep] by simp
    ultimately show ?thesis by simp
  qed
qed

lemma publishLoop_calls:
  "map Value (produceCalls (publishLoop producer topic logLines st)) =
   map Value (produceCalls st) @ filter (sublist '' - '') logLines"
proof (induction logLines arbitrary: st)
  case Nil
  then show ?case by simp
next
  case (Cons l ls)
  have sp: "(length (Split l '' - '') < 2) = (\<not> sublist '' - '' l)"
    using Split_length_ge2 [of "'' - ''" l] by auto
  show ?case
    by (simp add: Cons.IH sp Let_def del: One_nat_def)
qed

lemma publishLoop_invalid:
  "filter isInvalidLogLine (qlogs (publishLoop producer topic logLines st)) =
   filter isInvalidLogLine (qlogs st)
   @ map InvalidLogLine (filter (\<lambda>l. \<not> sublist '' - '' l) logLines)"
proof (induction logLines arbitrary: st)
  case Nil
  then show ?case by simp
next
  case (Cons l ls)
  have sp: "(length (Split l '' - '') < 2) = (\<not> sublist '' - '' l)"
    using Split_length_ge2 [of "'' - ''" l] by auto
  show ?case
    by (simp add: Cons.IH sp Let_def split: option.splits del: One_nat_def)
qed

subsection \<open>Sanitizing consumer: \<open>FileWorker.Start\<close>\<close>









subsection \<open>Stats consumer: \<open>StatsWorker.processLogLine\<close>\<close>

lemma ms_Cat_iff:
  "x \<in> set (ms (Cat r1 r2) st) \<longleftrightarrow> (\<exists>y \<in> set (ms r1 st). x \<in> set (ms r2 y))"
  by auto

lemma ms_Atom_iff:
  "x \<in> set (ms (Atom a) st) \<longleftrightarrow> (\<exists>ch. fst st = ch # fst x \<and> cls_match a ch \<and> snd x = snd st)"
  by (cases st; cases x) (auto split: list.splits)

lemma ms_Star_iff:
  "x \<in> set (ms (Star r) st) \<longleftrightarrow>
   x = st \<or> (\<exists>y \<in> set (ms r st). length (fst y) < length (fst st) \<and> x \<in> set (ms (Star r) y))"
  by (subst ms.simps) (auto split: if_splits simp del: ms.simps)

lemma ms_Group_iff:
  "x \<in> set (ms (Group i r) st) \<longleftrightarrow>
   (\<exists>y \<in> set (ms r st).
      x = (fst y, (snd y)[i := take (length (fst st) - length (fst y)) (fst st)]))"
  by auto

lemma ms_caps_length:
  "x \<in> set (ms r st) \<Longrightarrow> length (snd x) = length (snd st)"
proof (induction r st arbitrary: x rule: ms.induct)
  case (1 st)
  then show ?case by simp
next
  case (2 a st)
  then show ?case by (auto simp: ms_Atom_iff simp del: ms.simps)
next
  case (3 r1 r2 st)
  from "3.prems" obtain y where y: "y \<in> set (ms r1 st)" and x: "x \<in> set (ms r2 y)"
    unfolding ms_Cat_iff by blast
  from "3.IH"(1) [OF y] "3.IH"(2) [OF y x] show ?case by simp
next
  case (4 r st)
  from "4.prems" consider "x = st"
    | y where "y \<in> set (ms r st)" "length (fst y) < length (fst st)" "x \<in> set (ms (Star r) y)"
    using ms_Star_iff [of x r st] by blast
  then show ?case
  proof cases
    case 1
    then show ?thesis by simp
  next
    case 2
    from "4.IH"(1) [OF 2(1)] "4.IH"(2) [OF 2(1) 2(2) 2(3)] show ?thesis by simp
  qed
next
  case (5 i r st)
  from "5.prems" obtain y where y: "y \<in> set (ms r st)"
    and x: "x = (fst y, (snd y)[i := take (length (fst st) - length (fst y)) (fst st)])"
    unfolding ms_Group_iff by blast
  from "5.IH" [OF y] x show ?case by simp
qed

lemma ms_noGroups_caps:
  "x \<in> set (ms r st) \<Longrightarrow> noGroups r \<Longrightarrow> snd x = snd st"
proof (induction r st arbitrary: x rule: ms.induct)
  case (1 st)
  then show ?case by simp
next
  case (2 a st)
  then show ?case by (auto simp: ms_Atom_iff simp del: ms.simps)
next
  case (3 r1 r2 st)
  from "3.prems"(1) obtain y where y: "y \<in> set (ms r1 st)" and x: "x \<in> set (ms r2 y)"
    unfolding ms_Cat_iff by blast
  from "3.IH"(1) [OF y] "3.IH"(2) [OF y x] "3.prems"(2) show ?case by simp
next
  case (4 r st)
  from "4.prems"(1) consider "x = st"
    | y where "y \<in> set (ms r st)" "length (fst y) < length (fst st)" "x \<in> set (ms (Star r) y)"
    using ms_Star_iff [of x r st] by blast
  then show ?case
  proof cases
    case 1
    then show ?thesis by simp
  next
    case 2
    from "4.IH"(1) [OF 2(1)] "4.IH"(2) [OF 2(1) 2(2) 2(3)] "4.prems"(2) show ?thesis by simp
  qed
next
  case (5 i r st)
  then show ?case by simp
qed

lemma fits_Cons:
  "fits (t # ts) s \<longleftrightarrow>
   (\<exists>c cs. s = c # cs \<and> (if t = CHR ''9'' then cls_match Digit c else c = t) \<and> fits ts cs)"
  by (cases s) auto

lemma fits_Nil: "fits [] s \<longleftrightarrow> s = []"
  by (cases s) auto

lemma timestampRe_shape:
  assumes "x \<in> set (ms timestampRe (s, c))"
  shows "timestampShape (take (length s - length (fst x)) s) \<and> snd x = c"
  using assms
  unfolding timestampRe_def timestampShape_def
  apply (simp only: Seq.simps Rep.simps Str.simps eval_nat_numeral BitM.simps ms_Cat_iff ms_Atom_iff)
  apply (clarsimp simp del: cls_match.simps)
  apply simp
  done

lemma digit_not_punct:
  "cls_match Digit c \<Longrightarrow> c \<noteq> CHR ''-'' \<and> c \<noteq> CHR ''+'' \<and> c \<noteq> CHR '' ''"
  by auto

lemma digitVal_range: "cls_match Digit c \<Longrightarrow> 0 \<le> digitVal c \<and> digitVal c \<le> 9"
  by (auto simp: digitVal_def)

lemma timestampShape_cases:
  assumes "timestampShape ts"
  obtains y1 y2 y3 y4 m1 m2 d1 d2 h1 h2 n1 n2 s1 s2 f1 f2 f3 where
    "ts = [y1, y2, y3, y4, CHR ''-'', m1, m2, CHR ''-'', d1, d2, CHR '' '', h1, h2, CHR '':'',
           n1, n2, CHR '':'', s1, s2, CHR '','', f1, f2, f3]"
    "cls_match Digit y1" "cls_match Digit y2" "cls_match Digit y3" "cls_match Digit y4"
    "cls_match Digit m1" "cls_match Digit m2" "cls_match Digit d1" "cls_match Digit d2"
    "cls_match Digit h1" "cls_match Digit h2" "cls_match Digit n1" "cls_match Digit n2"
    "cls_match Digit s1" "cls_match Digit s2"
    "cls_match Digit f1" "cls_match Digit f2" "cls_match Digit f3"
  using assms unfolding timestampShape_def
  by (auto simp: fits_Cons fits_Nil simp del: cls_match.simps)

lemma longYear_digits:
  "cls_match Digit y1 \<Longrightarrow> cls_match Digit y2 \<Longrightarrow> cls_match Digit y3 \<Longrightarrow> cls_match Digit y4 \<Longrightarrow>
   longYear (y1 # y2 # y3 # y4 # rest) = Inr (leadingInt [y1, y2, y3, y4], rest)"
  using digit_not_punct [of y1]
  by (simp add: longYear_def isDigit_def atoi_def bindE_def del: cls_match.simps)

lemma skip_literal: "p \<noteq> CHR '' '' \<Longrightarrow> skip (p # rest) [p] = Inr rest"
  by simp

lemma skip_space: "h \<noteq> CHR '' '' \<Longrightarrow> skip (CHR '' '' # h # rest) '' '' = Inr (h # rest)"
  by (simp add: cutspace_def)

lemma getnum_two:
  "cls_match Digit a \<Longrightarrow> cls_match Digit b \<Longrightarrow>
   getnum (a # b # rest) fixed = Inr (digitVal a * 10 + digitVal b, rest)"
  by (simp add: getnum_def isDigit_def del: cls_match.simps)

lemma fracSecond9_three:
  "cls_match Digit f1 \<Longrightarrow> cls_match Digit f2 \<Longrightarrow> cls_match Digit f3 \<Longrightarrow>
   fracSecond9 [CHR '','', f1, f2, f3] =
     Inr (((digitVal f1 * 10 + digitVal f2) * 10 + digitVal f3) * 1000000, [])"
  using digit_not_punct [of f1] digitVal_range [of f1] digitVal_range [of f2]
    digitVal_range [of f3]
  by (simp add: fracSecond9_def parseNanoseconds_def commaOrPeriod_def atoi_def bindE_def
      leadingInt_def Let_def del: cls_match.simps)

lemma time_Parse_explicit:
  assumes "cls_match Digit y1" "cls_match Digit y2" "cls_match Digit y3" "cls_match Digit y4"
    "cls_match Digit m1" "cls_match Digit m2" "cls_match Digit d1" "cls_match Digit d2"
    "cls_match Digit h1" "cls_match Digit h2" "cls_match Digit n1" "cls_match Digit n2"
    "cls_match Digit s1" "cls_match Digit s2"
    "cls_match Digit f1" "cls_match Digit f2" "cls_match Digit f3"
    and "time_Parse [y1, y2, y3, y4, CHR ''-'', m1, m2, CHR ''-'', d1, d2, CHR '' '', h1, h2,
           CHR '':'', n1, n2, CHR '':'', s1, s2, CHR '','', f1, f2, f3] = Inr t"
  shows "t = Date (leadingInt [y1, y2, y3, y4]) (digitVal m1 * 10 + digitVal m2)
              (digitVal d1 * 10 + digitVal d2) (digitVal h1 * 10 + digitVal h2)
              (digitVal n1 * 10 + digitVal n2) (digitVal s1 * 10 + digitVal s2)
              (((digitVal f1 * 10 + digitVal f2) * 10 + digitVal f3) * 1000000)"
proof -
  have h: "h1 \<noteq> CHR '' ''" using assms(9) digit_not_punct by blast
  have ly: "longYear [y1, y2, y3, y4, CHR ''-'', m1, m2, CHR ''-'', d1, d2, CHR '' '', h1, h2,
           CHR '':'', n1, n2, CHR '':'', s1, s2, CHR '','', f1, f2, f3] =
      Inr (leadingInt [y1, y2, y3, y4], [CHR ''-'', m1, m2, CHR ''-'', d1, d2, CHR '' '', h1, h2,
           CHR '':'', n1, n2, CHR '':'', s1, s2, CHR '','', f1, f2, f3])"
    using assms(1-4) by (rule longYear_digits)
  show ?thesis
    using assms(18)
    unfolding time_Parse_def ly
    by (simp add: bindE_def skip_literal skip_space [OF h]
        getnum_two [OF assms(5) assms(6)] getnum_two [OF assms(7) assms(8)]
        getnum_two [OF assms(9) assms(10)] getnum_two [OF assms(11) assms(12)]
        getnum_two [OF assms(13) assms(14)] fracSecond9_three [OF assms(15) assms(16) assms(17)]
        del: cls_match.simps skip.simps split: if_splits)
qed

lemma time_Parse_shape_explicit:
  assumes "time_Parse [y1, y2, y3, y4, CHR ''-'', m1, m2, CHR ''-'', d1, d2, CHR '' '', h1, h2,
           CHR '':'', n1, n2, CHR '':'', s1, s2, CHR '','', f1, f2, f3] = Inr t"
    and "cls_match Digit y1" "cls_match Digit y2" "cls_match Digit y3" "cls_match Digit y4"
    "cls_match Digit m1" "cls_match Digit m2" "cls_match Digit d1" "cls_match Digit d2"
    "cls_match Digit h1" "cls_match Digit h2" "cls_match Digit n1" "cls_match Digit n2"
    "cls_match Digit s1" "cls_match Digit s2"
    "cls_match Digit f1" "cls_match Digit f2" "cls_match Digit f3"
  shows "nsec t = leadingInt [f1, f2, f3] * 1000000
         \<and> 0 \<le> leadingInt [f1, f2, f3] \<and> leadingInt [f1, f2, f3] < 1000
         \<and> loc t = UTCLoc"
proof -
  have fr: "0 \<le> digitVal f1 \<and> digitVal f1 \<le> 9" "0 \<le> digitVal f2 \<and> digitVal f2 \<le> 9"
    "0 \<le> digitVal f3 \<and> digitVal f3 \<le> 9"
    using assms(16-18) digitVal_range by blast+
  have ms: "leadingInt [f1, f2, f3] = (digitVal f1 * 10 + digitVal f2) * 10 + digitVal f3"
    by (simp add: leadingInt_def)
  have "t = Date (leadingInt [y1, y2, y3, y4]) (digitVal m1 * 10 + digitVal m2)
              (digitVal d1 * 10 + digitVal d2) (digitVal h1 * 10 + digitVal h2)
              (digitVal n1 * 10 + digitVal n2) (digitVal s1 * 10 + digitVal s2)
              (((digitVal f1 * 10 + digitVal f2) * 10 + digitVal f3) * 1000000)"
    using assms(2-18) assms(1) by (rule time_Parse_explicit)
  then have "nsec t = ((digitVal f1 * 10 + digitVal f2) * 10 + digitVal f3) * 1000000"
    and "loc t = UTCLoc"
    by (simp_all add: Date_def Let_def)
  moreover have "(digitVal f1 * 10 + digitVal f2) * 10 + digitVal f3 < 1000"
    using fr by auto
  moreover have "0 \<le> (digitVal f1 * 10 + digitVal f2) * 10 + digitVal f3"
    using fr by simp
  ultimately show ?thesis unfolding ms by simp
qed

lemma time_Parse_shape_explicit':
  assumes "time_Parse [y1, y2, y3, y4, CHR ''-'', m1, m2, CHR ''-'', d1, d2, CHR '' '', h1, h2,
           CHR '':'', n1, n2, CHR '':'', s1, s2, CHR '','', f1, f2, f3] = Inr t"
    and "cls_match Digit y1" "cls_match Digit y2" "cls_match Digit y3" "cls_match Digit y4"
    "cls_match Digit m1" "cls_match Digit m2" "cls_match Digit d1" "cls_match Digit d2"
    "cls_match Digit h1" "cls_match Digit h2" "cls_match Digit n1" "cls_match Digit n2"
    "cls_match Digit s1" "cls_match Digit s2"
    "cls_match Digit f1" "cls_match Digit f2" "cls_match Digit f3"
  shows "nsec t = leadingInt (drop 20 [y1, y2, y3, y4, CHR ''-'', m1, m2, CHR ''-'', d1, d2, CHR '' '', h1, h2,
           CHR '':'', n1, n2, CHR '':'', s1, s2, CHR '','', f1, f2, f3]) * 1000000
         \<and> 0 \<le> leadingInt (drop 20 [y1, y2, y3, y4, CHR ''-'', m1, m2, CHR ''-'', d1, d2, CHR '' '', h1, h2,
           CHR '':'', n1, n2, CHR '':'', s1, s2, CHR '','', f1, f2, f3]) \<and> leadingInt (drop 20 [y1, y2, y3, y4, CHR ''-'', m1, m2, CHR ''-'', d1, d2, CHR '' '', h1, h2,
           CHR '':'', n1, n2, CHR '':'', s1, s2, CHR '','', f1, f2, f3]) < 1000
         \<and> loc t = UTCLoc"
  using time_Parse_shape_explicit [OF assms] by simp

lemma time_Parse_shape:
  "timestampShape ts \<Longrightarrow> time_Parse ts = Inr t \<Longrightarrow>
   nsec t = leadingInt (drop 20 ts) * 1000000
   \<and> 0 \<le> leadingInt (drop 20 ts) \<and> leadingInt (drop 20 ts) < 1000
   \<and> loc t = UTCLoc"
  apply (erule timestampShape_cases)
  apply hypsubst
  apply (rule time_Parse_shape_explicit')
                   apply assumption+
  done

lemma seq_peel:
  "x \<in> set (ms (Seq (r # q # rs)) st) \<Longrightarrow>
   \<exists>y. length (snd y) = length (snd st) \<and> x \<in> set (ms (Seq (q # rs)) y)"
  using ms_caps_length ms_Cat_iff by (metis Seq.simps(3))

lemma group_then_tail:
  assumes "x \<in> set (ms (Seq [Group i r, lit, Group j q]) st)"
    and "i \<noteq> j" and "i < length (snd st)" and "noGroups lit" and "noGroups q"
  shows "\<exists>z \<in> set (ms r st). snd x ! i = take (length (fst st) - length (fst z)) (fst st)"
proof -
  from assms(1) obtain y1 y2 where y1: "y1 \<in> set (ms (Group i r) st)"
    and y2: "y2 \<in> set (ms lit y1)" and x: "x \<in> set (ms (Group j q) y2)"
    by (auto simp: ms_Cat_iff simp del: ms.simps)
  from y1 obtain z where z: "z \<in> set (ms r st)"
    and y1z: "y1 = (fst z, (snd z)[i := take (length (fst st) - length (fst z)) (fst st)])"
    using ms_Group_iff [of y1 i r st] by blast
  from x obtain w where w: "w \<in> set (ms q y2)"
    and xw: "x = (fst w, (snd w)[j := take (length (fst y2) - length (fst w)) (fst y2)])"
    using ms_Group_iff [of x j q y2] by blast
  have "snd w = snd y1"
    using ms_noGroups_caps [OF w assms(5)] ms_noGroups_caps [OF y2 assms(4)] by simp
  moreover have "length (snd z) = length (snd st)" using z by (rule ms_caps_length)
  ultimately have "snd x ! i = take (length (fst st) - length (fst z)) (fst st)"
    using xw y1z assms(2,3) by simp
  with z show ?thesis by blast
qed

lemma statsPattern_group4:
  "x \<in> set (ms statsPattern st) \<Longrightarrow> length (snd st) = 6 \<Longrightarrow> timestampShape (snd x ! 4)"
  unfolding statsPattern_def
  apply (drule seq_peel, elim exE conjE)
  apply (drule seq_peel, elim exE conjE)
  apply (drule seq_peel, elim exE conjE)
  apply (drule seq_peel, elim exE conjE)
  apply (drule seq_peel, elim exE conjE)
  apply (drule seq_peel, elim exE conjE)
  apply (drule group_then_tail)
      apply simp
     apply simp
    apply (simp add: eval_nat_numeral)
   apply simp
  apply (elim bexE)
  subgoal for y1 y2 y3 y4 y5 y6 z
    using timestampRe_shape [of z "fst y6" "snd y6"] by simp
  done

lemma findFrom_result:
  "findFrom re s \<noteq> [] \<Longrightarrow>
   \<exists>suf x. x \<in> set (ms re (suf, replicate (Suc (numSubexp re)) []))
          \<and> (\<forall>i. 0 < i \<longrightarrow> findFrom re s ! i = snd x ! i)"
proof (induction s)
  case Nil
  show ?case
  proof (cases "ms re ([], replicate (Suc (numSubexp re)) [])")
    case Nil
    with Nil.prems show ?thesis by (simp del: ms.simps)
  next
    case (Cons x xs)
    then have "x \<in> set (ms re ([], replicate (Suc (numSubexp re)) []))" by simp
    moreover have "\<forall>i. 0 < i \<longrightarrow> findFrom re [] ! i = snd x ! i"
      using Cons by (simp del: ms.simps)
    ultimately show ?thesis by blast
  qed
next
  case (Cons c cs)
  show ?case
  proof (cases "ms re (c # cs, replicate (Suc (numSubexp re)) [])")
    case Nil
    with Cons show ?thesis by (simp del: ms.simps)
  next
    case (Cons x xs)
    then have "x \<in> set (ms re (c # cs, replicate (Suc (numSubexp re)) []))" by simp
    moreover have "\<forall>i. 0 < i \<longrightarrow> findFrom re (c # cs) ! i = snd x ! i"
      using Cons by (simp del: ms.simps)
    ultimately show ?thesis by blast
  qed
qed

lemma numSubexp_statsPattern: "numSubexp statsPattern = 5"
  by code_simp

lemma stats_loggedTime_shape:
  assumes "FindStringSubmatch statsPattern logLine \<noteq> []"
  shows "timestampShape (FindStringSubmatch statsPattern logLine ! 4)"
proof -
  from findFrom_result [of statsPattern logLine] assms obtain suf x where
    x: "x \<in> set (ms statsPattern (suf, replicate (Suc (numSubexp statsPattern)) []))"
    and eq: "\<forall>i. 0 < i \<longrightarrow> findFrom statsPattern logLine ! i = snd x ! i"
    unfolding FindStringSubmatch_def by blast
  have "timestampShape (snd x ! 4)"
    using x by (rule statsPattern_group4) (simp add: numSubexp_statsPattern)
  with eq show ?thesis by (simp add: FindStringSubmatch_def)
qed

lemma UTC_of_utc: "loc t = UTCLoc \<Longrightarrow> UTC t = t"
  by (cases t) (simp add: UTC_def)

section \<open>Claims\<close>

subsection \<open>Log processor: \<open>ProcessLogFile\<close> and
    \<open>ProcessLogs\<close>\<close>







text \<open>
  C8. When \<open>os.Open\<close> fails for a file, \<open>ProcessLogFile\<close> logs the
      failure, sends no record
  and still signals the wait group, so the batch is not held up; every other file of the list
  is processed by its own call exactly as it would be alone, whatever its position in the
  batches.
\<close>

theorem C8_open_failure_skips_file:
  assumes "fs filePath = OpenError e"
  shows "ProcessLogFile fs filePath =
           \<lparr>sent = [], plogs = [FailedToOpenFile filePath e], wgDone = True\<rparr>
         \<and> concat (ProcessLogs fs (before @ filePath # after)) =
           map (ProcessLogFile fs) before
           @ \<lparr>sent = [], plogs = [FailedToOpenFile filePath e], wgDone = True\<rparr>
           # map (ProcessLogFile fs) after"
proof -
  have one: "ProcessLogFile fs filePath =
           \<lparr>sent = [], plogs = [FailedToOpenFile filePath e], wgDone = True\<rparr>"
    using assms by (simp add: ProcessLogFile_def)
  have "concat (ProcessLogs fs (before @ filePath # after)) =
        map (ProcessLogFile fs) (before @ filePath # after)"
    by (simp add: ProcessLogs_def batchLoop_concat)
  with one show ?thesis by simp
qed

theorem C8_open_failure_skips_file_witness:
  "(\<lambda>p. if p = ''b'' then OpenError ''no such file''
         else Opened ''1:10::main 2023-01-01 00:00:00,000 - start\<newline>'' None) ''b''
     = OpenError ''no such file''
   \<and> map sent (concat (ProcessLogs
        (\<lambda>p. if p = ''b'' then OpenError ''no such file''
              else Opened ''1:10::main 2023-01-01 00:00:00,000 - start\<newline>'' None)
        [''a'', ''b'', ''c''])) =
     [[''1:10::main 2023-01-01 00:00:00,000 - start''], [],
      [''1:10::main 2023-01-01 00:00:00,000 - start'']]"
proof -
  let ?fs = "\<lambda>p. if p = ''b'' then OpenError ''no such file''
              else Opened ''1:10::main 2023-01-01 00:00:00,000 - start\<newline>'' None"
  have o: "?fs ''b'' = OpenError ''no such file''" by simp
  have h: "matchesHeader ''1:10::main 2023-01-01 00:00:00,000 - start''" by code_simp
  have a: "sent (ProcessLogFile ?fs ''a'') = [''1:10::main 2023-01-01 00:00:00,000 - start'']"
    by code_simp
  have c: "sent (ProcessLogFile ?fs ''c'') = [''1:10::main 2023-01-01 00:00:00,000 - start'']"
    by code_simp
  show ?thesis
    using o a c C8_open_failure_skips_file [of ?fs "''b''" "''no such file''" "[''a'']" "[''c'']"]
    by simp
qed

subsection \<open>The shared channel of \<open>ProcessLogs\<close>\<close>

text \<open>
  C5. Whatever the files, their number and the interleaving of the goroutines, the channel
  between the assemblers and the publisher never holds more than \<open>maxParallelLines\<close>
      records.
\<close>

theorem C5_channel_bound:
  "length (chan (runP fs filePaths schedule)) \<le> maxParallelLines"
  unfolding runP_def
  by (rule foldl_stepP_bound) (simp add: initP_def)

theorem C5_channel_bound_witness:
  "chan (runP (\<lambda>p. Opened
      (''1:10::main 2023-01-01 00:00:00,000 - start\<newline>cont1\<newline>'' @
                              ''1:10::main 2023-01-01 00:00:01,000 - end\<newline>'') None)
          [''a''] [NextBatch, Send 0, Send 0, Receive]) =
     [''1:10::main 2023-01-01 00:00:01,000 - end'']
   \<and> length (chan (runP (\<lambda>p. Opened
       (''1:10::main 2023-01-01 00:00:00,000 - start\<newline>cont1\<newline>'' @
                              ''1:10::main 2023-01-01 00:00:01,000 - end\<newline>'') None)
          [''a''] [NextBatch, Send 0, Send 0, Receive])) \<le> maxParallelLines"
proof -
  have "chan (runP (\<lambda>p. Opened
      (''1:10::main 2023-01-01 00:00:00,000 - start\<newline>cont1\<newline>'' @
                              ''1:10::main 2023-01-01 00:00:01,000 - end\<newline>'') None)
          [''a''] [NextBatch, Send 0, Send 0, Receive]) =
     [''1:10::main 2023-01-01 00:00:01,000 - end'']"
    by code_simp
  then show ?thesis
    using C5_channel_bound [of "\<lambda>p. Opened
        (''1:10::main 2023-01-01 00:00:00,000 - start\<newline>cont1\<newline>'' @
                              ''1:10::main 2023-01-01 00:00:01,000 - end\<newline>'') None"
          "[''a'']" "[NextBatch, Send 0, Send 0, Receive]"]
    by simp
qed

subsection \<open>Batch publisher: \<open>PublishToKafka\<close>\<close>

text \<open>
  C9. The publisher hands a record to \<open>producer.Produce\<close> if and only if the record's
      text
  contains the separator \<open>" - "\<close>: the values of the messages produced are exactly the
  received records that contain it, in order, and the records logged as invalid are exactly
  those that do not contain it. A record without the separator is therefore never on the bus.
\<close>

theorem C9_published_iff_separator:
  "map Value (produceCalls (PublishToKafka logLines producer topic)) =
     filter (sublist '' - '') logLines
   \<and> filter isInvalidLogLine (qlogs (PublishToKafka logLines producer topic)) =
     map InvalidLogLine (filter (\<lambda>l. \<not> sublist '' - '' l) logLines)"
  by (simp add: PublishToKafka_def publishLoop_calls publishLoop_invalid)

text \<open>
  C2. The claim is that the key of a published message is \<open>processID-threadID\<close>. The
  publisher takes as key the text before the first \<open>" - "\<close>, which is the whole header
      up to
  and including the timestamp: for the record below the key is
  \<open>1:10::main 2023-01-01 00:00:00,000\<close>, not \<open>1-10\<close>, where
      \<open>1\<close> and \<open>10\<close> are the two
  numeric fields the stats worker's pattern reads from the header.
\<close>

theorem C2_key_is_header_prefix:
  "map Key (produceCalls (PublishToKafka [''1:10::main 2023-01-01 00:00:00,000 - start'']
                            (\<lambda>m. None) ''logs'')) =
     [''1:10::main 2023-01-01 00:00:00,000'']
   \<and> FindStringSubmatch statsPattern ''1:10::main 2023-01-01 00:00:00,000 - start'' ! 1 = ''1''
   \<and> FindStringSubmatch statsPattern ''1:10::main 2023-01-01 00:00:00,000 - start'' ! 2 =
       ''10''
   \<and> ''1:10::main 2023-01-01 00:00:00,000'' \<noteq> ''1'' @ ''-'' @ ''10''"
  by code_simp

subsection \<open>Sanitizing consumer: \<open>FileWorker.Start\<close>\<close>



text \<open>
  C3. The claim is that a delivered record is appended to \<open><processID>.log\<close>, named
      after
  the process the record comes from. The worker names the file after the text of the key
  before its first \<open>-\<close>, and the key the publisher attaches is the header up to the
  timestamp, whose first \<open>-\<close> is in the date. The record below comes from process
      \<open>1\<close>;
  published and delivered, its key passes the worker's check, and it is appended to
  \<open>1:10::main 2023.log\<close>, while no file \<open>1.log\<close> is written.
\<close>

theorem C3_file_named_by_key_prefix:
  "FindStringSubmatch statsPattern ''1:10::main 2023-01-01 00:00:00,000 - start'' ! 1 = ''1''
   \<and> map Key (produceCalls
        (PublishToKafka [''1:10::main 2023-01-01 00:00:00,000 - start''] (\<lambda>m. None)
            ''logs'')) =
     [''1:10::main 2023-01-01 00:00:00,000'']
   \<and> flogs (stateOf (Start ''/app/data/sanitized'' None None (\<lambda>p. None)
        (map (\<lambda>m. Delivered m None None)
           (produceCalls (PublishToKafka [''1:10::main 2023-01-01 00:00:00,000 - start'']
                            (\<lambda>m. None) ''logs''))))) = []
   \<and> map path (opened (stateOf (Start ''/app/data/sanitized'' None None (\<lambda>p. None)
        (map (\<lambda>m. Delivered m None None)
           (produceCalls (PublishToKafka [''1:10::main 2023-01-01 00:00:00,000 - start'']
                            (\<lambda>m. None) ''logs'')))))) =
     [''/app/data/sanitized/1:10::main 2023.log'']
   \<and> disk (stateOf (Start ''/app/data/sanitized'' None None (\<lambda>p. None)
        (map (\<lambda>m. Delivered m None None)
           (produceCalls (PublishToKafka [''1:10::main 2023-01-01 00:00:00,000 - start'']
                            (\<lambda>m. None) ''logs'')))))
        (resolvePath ''/app/data/sanitized/1:10::main 2023.log'') =
     Some ''1:10::main 2023-01-01 00:00:00,000 - start\<newline>''
   \<and> disk (stateOf (Start ''/app/data/sanitized'' None None (\<lambda>p. None)
        (map (\<lambda>m. Delivered m None None)
           (produceCalls (PublishToKafka [''1:10::main 2023-01-01 00:00:00,000 - start'']
                            (\<lambda>m. None) ''logs'')))))
        (resolvePath (logFileName ''/app/data/sanitized'' ''1'')) = None"
  by code_simp

subsection \<open>Stats consumer: \<open>StatsWorker.processLogLine\<close>\<close>

text \<open>
  C1. The claim is that a record that does not match the pattern is logged and dropped
  without a crash. \<open>processLogLine\<close> indexes the result of
      \<open>FindStringSubmatch\<close> without
  looking at its length, so on a record without a match the index is out of range and the
  worker panics; the records behind it are not processed. Such a record reaches the worker: a
  file whose first line is \<open>hello - world\<close> is assembled into a record that starts
      with a
  newline, contains the separator and is therefore published. (A timestamp that matches the
  pattern but does not parse, as in the last conjunct, is logged and dropped, and the next
  record is processed.)
\<close>

theorem C1_unmatched_record_panics:
  "sent (ProcessLogFile (\<lambda>p. Opened ''hello - world\<newline>'' None) ''a'') =
      [''\<newline>hello - world'']
   \<and> map Value (produceCalls (PublishToKafka [''\<newline>hello - world''] (\<lambda>m. None)
       ''logs'')) =
     [''\<newline>hello - world'']
   \<and> FindStringSubmatch statsPattern ''\<newline>hello - world'' = []
   \<and> processLogLine \<lparr>rows = [], slogs = []\<rparr> ''\<newline>hello - world'' None =
     Inl (IndexOutOfRange 1 0)
   \<and> StatsStart None
        [StatsDelivered \<lparr>Topic = ''logs'', Key = ''\<newline>hello'', Value =
            ''\<newline>hello - world''\<rparr> None,
         StatsDelivered \<lparr>Topic = ''logs'', Key = ''1:10::main 2023-01-01 00:00:00,000'',
                         Value = ''1:10::main 2023-01-01 00:00:00,000 - start''\<rparr> None] =
     Panicked (IndexOutOfRange 1 0)
   \<and> StatsStart None
        [StatsDelivered \<lparr>Topic = ''logs'', Key = ''1:10::main 2023-13-01 00:00:00,000'',
                         Value = ''1:10::main 2023-13-01 00:00:00,000 - start''\<rparr> None,
         StatsDelivered \<lparr>Topic = ''logs'', Key = ''1:10::main 2023-01-01 00:00:00,000'',
                         Value = ''1:10::main 2023-01-01 00:00:00,000 - start''\<rparr> None] =
     StatsWaiting
       \<lparr>rows = [\<lparr>ProcessID = ''1'', ThreadID = ''10'',
                  Timestamp = \<lparr>sec = 1672531200, nsec = 0, loc = UTCLoc\<rparr>,
                  TimestampSeconds = 1672531200, LogMessage = ''start''\<rparr>],
        slogs = [FailedToParseTimestamp (OutOfRange ''month'')]\<rparr>"
  by code_simp

text \<open>
  C7. Whenever \<open>processLogLine\<close> persists a row, its \<open>Timestamp\<close> is the
      instant
  \<open>time.Parse\<close> read from the record's timestamp text, \<open>TimestampSeconds\<close>
      is that instant
  truncated to whole seconds, and the milliseconds of \<open>Timestamp\<close> are the three digits
  behind the comma in the text, with nothing below a millisecond.
\<close>

theorem C7_timestamp_seconds:
  assumes "processLogLine st logLine insertErr = Inr st'" and "rows st' \<noteq> rows st"
  shows "\<exists>row t. rows st' = rows st @ [row]
           \<and> time_Parse (FindStringSubmatch statsPattern logLine ! 4) = Inr t
           \<and> Timestamp row = t
           \<and> TimestampSeconds row = UnixMilli (Timestamp row) div 1000
           \<and> UnixMilli (Timestamp row) mod 1000 =
               leadingInt (drop 20 (FindStringSubmatch statsPattern logLine ! 4))
           \<and> UnixNano (Timestamp row) = UnixMilli (Timestamp row) * 1000000"
proof -
  let ?m = "FindStringSubmatch statsPattern logLine"
  let ?ms = "leadingInt (drop 20 (?m ! 4))"
  from assms obtain t where len: "5 < length ?m" and tp: "time_Parse (?m ! 4) = Inr t"
    and st': "rows st' = rows st @ [\<lparr>ProcessID = ?m ! 1, ThreadID = ?m ! 2,
                Timestamp = UTC t, TimestampSeconds = Unix t,
                LogMessage = TrimSpace (?m ! 5)\<rparr>]"
    by (auto simp: processLogLine_def index_def bindE_def Let_def
        split: if_splits sum.splits option.splits)
  from len have "?m \<noteq> []" by auto
  then have "timestampShape (?m ! 4)" by (rule stats_loggedTime_shape)
  from time_Parse_shape [OF this tp]
  have ns: "nsec t = ?ms * 1000000" and lo: "0 \<le> ?ms" and hi: "?ms < 1000"
    and utc: "loc t = UTCLoc"
    by simp_all
  have milli: "UnixMilli t = sec t * 1000 + ?ms"
    by (simp add: UnixMilli_def ns)
  have "UnixMilli t div 1000 = sec t" "UnixMilli t mod 1000 = ?ms"
    using lo hi by (simp_all add: milli)
  moreover have "UnixNano t = UnixMilli t * 1000000"
    by (simp add: UnixNano_def milli ns)
  ultimately show ?thesis
    using st' tp by (simp add: UTC_of_utc [OF utc] Unix_def)
qed

theorem C7_timestamp_seconds_witness:
  "processLogLine \<lparr>rows = [], slogs = []\<rparr>
      ''1:10::main 2023-01-01 00:00:01,500 - start'' None =
     Inr \<lparr>rows = [\<lparr>ProcessID = ''1'', ThreadID = ''10'',
                     Timestamp = \<lparr>sec = 1672531201, nsec = 500000000, loc = UTCLoc\<rparr>,
                     TimestampSeconds = 1672531201, LogMessage = ''start''\<rparr>],
          slogs = []\<rparr>
   \<and> (\<exists>row t. [\<lparr>ProcessID = ''1'', ThreadID = ''10'',
                     Timestamp = \<lparr>sec = 1672531201, nsec = 500000000, loc = UTCLoc\<rparr>,
                     TimestampSeconds = 1672531201, LogMessage = ''start''\<rparr>] = [row]
          \<and> Timestamp row = t
          \<and> TimestampSeconds row = UnixMilli (Timestamp row) div 1000
          \<and> UnixNano (Timestamp row) = UnixMilli (Timestamp row) * 1000000)"
proof -
  have e: "processLogLine \<lparr>rows = [], slogs = []\<rparr>
             ''1:10::main 2023-01-01 00:00:01,500 - start'' None =
     Inr \<lparr>rows = [\<lparr>ProcessID = ''1'', ThreadID = ''10'',
                     Timestamp = \<lparr>sec = 1672531201, nsec = 500000000, loc = UTCLoc\<rparr>,
                     TimestampSeconds = 1672531201, LogMessage = ''start''\<rparr>],
          slogs = []\<rparr>"
    by code_simp
  show ?thesis
    using e C7_timestamp_seconds [OF e] by auto
qed

end
